theory Spec2Isabelle
  imports Main "HOL-Library.AList"
begin

section \<open>JavaScript values\<close>

text \<open>
  The server keeps, per tenant, a document \<open>{ matchData, overlays, wagonData, updatedAt }\<close>
  built from the payloads of socket messages. A payload is a JSON tree; \<open>undefined\<close> is
  what a missing property or a missing argument reads as, so a JavaScript value is a
  \<open>json option\<close> with \<open>None\<close> for \<open>undefined\<close>.

  An object is the list of its own properties in enumeration order (the order of
  \<open>Object.keys\<close>, \<open>for ... in\<close>, the spread operator and \<open>JSON.stringify\<close>), with
  pairwise different keys (\<open>wf_json\<close> below). Numbers are integers: the code only
  compares and copies them.

  Limits of the model. A property read is the read of an own property: keys and tenant
  names that name a member of \<open>Object.prototype\<close> (\<open>__proto__\<close>, \<open>constructor\<close>,
  \<open>toString\<close>, ...) are outside the model, and what is proved below says nothing about
  them. An object that the code builds (by a spread, or key by key) keeps its keys in
  insertion order, where JavaScript moves array-index keys to the front; the statements
  below read such an object key by key, never in order.
\<close>

datatype json =
    JNull
  | JBool bool
  | JNum int
  | JStr string
  | JArr "json list"
  | JObj "(string \<times> json) list"

type_synonym jsval = "json option"

datatype js_error = TypeError

fun jsize :: "jsval \<Rightarrow> nat" where
  "jsize None = 0"
| "jsize (Some v) = size v"


text \<open>\<open>if (v)\<close>, \<open>v && ...\<close>, \<open>v || ...\<close>: \<open>undefined\<close>, \<open>null\<close>, \<open>false\<close>, \<open>0\<close> and
  the empty string are falsy, every object and array is truthy.\<close>

fun truthy :: "jsval \<Rightarrow> bool" where
  "truthy None = False"
| "truthy (Some JNull) = False"
| "truthy (Some (JBool b)) = b"
| "truthy (Some (JNum n)) = (n \<noteq> 0)"
| "truthy (Some (JStr s)) = (s \<noteq> [])"
| "truthy (Some (JArr xs)) = True"
| "truthy (Some (JObj kvs)) = True"

text \<open>\<open>isPlainObject(v)\<close> is \<open>Object.prototype.toString.call(v) === '[object Object]'\<close>.\<close>

definition isPlainObject :: "jsval \<Rightarrow> bool" where
  "isPlainObject v = (case v of Some (JObj kvs) \<Rightarrow> True | _ \<Rightarrow> False)"

definition isArray :: "jsval \<Rightarrow> bool" where
  "isArray v = (case v of Some (JArr xs) \<Rightarrow> True | _ \<Rightarrow> False)"

text \<open>\<open>typeof v === "object" && v !== null\<close>\<close>

definition isObjectNotNull :: "jsval \<Rightarrow> bool" where
  "isObjectNotNull v = (case v of Some (JObj kvs) \<Rightarrow> True | Some (JArr xs) \<Rightarrow> True | _ \<Rightarrow> False)"

text \<open>Decimal numerals: the keys of an array's elements and of a string's characters, and
  \<open>String(n)\<close>.\<close>

definition digit :: "nat \<Rightarrow> char" where
  "digit d = char_of (48 + d)"

function decimal :: "nat \<Rightarrow> string" where
  "decimal n = (if 10 \<le> n then decimal (n div 10) @ [digit (n mod 10)] else [digit n])"
  by pat_completeness auto
termination
  by (relation "measure id") auto

declare decimal.simps [simp del]

definition numberToString :: "int \<Rightarrow> string" where
  "numberToString i = (if 0 \<le> i then decimal (nat i) else CHR ''-'' # decimal (nat (- i)))"

definition indexKeys :: "nat \<Rightarrow> string list" where
  "indexKeys n = map decimal [0..<n]"

text \<open>The own enumerable properties of a value, in order: what \<open>Object.keys(v)\<close>,
  \<open>for (key in v)\<close> and \<open>{...v}\<close> see. An array has its elements under their indices, a
  string its characters; a number, a boolean and \<open>null\<close> have none.\<close>

fun ownProps :: "json \<Rightarrow> (string \<times> json) list" where
  "ownProps (JObj kvs) = kvs"
| "ownProps (JArr xs) = zip (indexKeys (length xs)) xs"
| "ownProps (JStr s) = zip (indexKeys (length s)) (map (\<lambda>c. JStr [c]) s)"
| "ownProps v = []"

definition objectKeys :: "json \<Rightarrow> string list" where
  "objectKeys v = map fst (ownProps v)"

text \<open>\<open>v[key]\<close> for a value \<open>v\<close> that is neither \<open>undefined\<close> nor \<open>null\<close> (where the read
  would throw; every read of the source but the destructuring of a payload is guarded
  against that, and the destructuring is modelled by \<open>destructure\<close> below). Arrays and
  strings also answer \<open>length\<close>.\<close>

fun getProp :: "json \<Rightarrow> string \<Rightarrow> jsval" where
  "getProp (JArr xs) key =
     (if key = ''length'' then Some (JNum (int (length xs))) else map_of (ownProps (JArr xs)) key)"
| "getProp (JStr s) key =
     (if key = ''length'' then Some (JNum (int (length s))) else map_of (ownProps (JStr s)) key)"
| "getProp v key = map_of (ownProps v) key"

text \<open>\<open>{ ...a, ...b }\<close>: the properties of \<open>a\<close>, then those of \<open>b\<close>; a key already there
  keeps its place and takes the new value.\<close>

definition spread2 :: "json \<Rightarrow> json \<Rightarrow> json" where
  "spread2 a b = JObj (fold (\<lambda>(k, v). AList.update k v) (ownProps a @ ownProps b) [])"

text \<open>\<open>new Set([...])\<close> keeps the first occurrence of every element, in order.\<close>

fun newSet :: "'a list \<Rightarrow> 'a list" where
  "newSet [] = []"
| "newSet (x # xs) = x # newSet (filter (\<lambda>y. y \<noteq> x) xs)"

text \<open>\<open>JSON.stringify(a) !== JSON.stringify(b)\<close>. On JSON trees the serialisation writes
  the whole tree, keys in enumeration order, and different trees have different texts;
  \<open>JSON.stringify(undefined)\<close> is \<open>undefined\<close>, which differs from every text. So the test
  is inequality of the two values.\<close>

definition stringifyDiffers :: "jsval \<Rightarrow> jsval \<Rightarrow> bool" where
  "stringifyDiffers a b = (a \<noteq> b)"

text \<open>\<open>a !== b\<close>, for values read from two different messages: primitives are compared by
  value; an object or an array is only identical to itself, and two messages never share
  one.\<close>

fun isPrimitive :: "jsval \<Rightarrow> bool" where
  "isPrimitive (Some (JArr xs)) = False"
| "isPrimitive (Some (JObj kvs)) = False"
| "isPrimitive v = True"

definition strictNotEqual :: "jsval \<Rightarrow> jsval \<Rightarrow> bool" where
  "strictNotEqual a b = (if isPrimitive a \<and> isPrimitive b then a \<noteq> b else True)"

text \<open>\<open>s.startsWith(p)\<close>\<close>

definition startsWith :: "string \<Rightarrow> string \<Rightarrow> bool" where
  "startsWith s p = (take (length p) s = p)"

subsection \<open>Tenant keys\<close>

text \<open>\<open>String(v)\<close>: an array is its elements joined by commas (\<open>null\<close> as the empty
  string), an object is \<open>[object Object]\<close>.\<close>

fun joinWith :: "string \<Rightarrow> string list \<Rightarrow> string" where
  "joinWith sep [] = []"
| "joinWith sep [x] = x"
| "joinWith sep (x # y # ys) = x @ sep @ joinWith sep (y # ys)"

fun toString :: "json \<Rightarrow> string" where
  "toString JNull = ''null''"
| "toString (JBool b) = (if b then ''true'' else ''false'')"
| "toString (JNum n) = numberToString n"
| "toString (JStr s) = s"
| "toString (JArr xs) = joinWith '','' (map (\<lambda>x. if x = JNull then [] else toString x) xs)"
| "toString (JObj kvs) = ''[object Object]''"

text \<open>\<open>s.trim()\<close>, over the white space of the one-byte characters: tab, line feed,
  vertical tab, form feed, carriage return, space and the no-break space.\<close>

definition isSpace :: "char \<Rightarrow> bool" where
  "isSpace c = (of_char c \<in> {9, 10, 11, 12, 13, 32, 160 :: nat})"

definition trim :: "string \<Rightarrow> string" where
  "trim s = rev (dropWhile isSpace (rev (dropWhile isSpace s)))"

text \<open>\<open>const keyFor = (userId) => (userId && String(userId).trim()) || 'default'\<close>\<close>

definition keyFor :: "jsval \<Rightarrow> string" where
  "keyFor userId =
     (case userId of
        None \<Rightarrow> ''default''
      | Some u \<Rightarrow>
          if truthy (Some u) \<and> trim (toString u) \<noteq> [] then trim (toString u) else ''default'')"

section \<open>index.js: the structural differ\<close>

text \<open>An operation \<open>{ op: 'set', path, value }\<close>; \<open>op\<close> is always \<open>'set'\<close>, and the value
  \<open>undefined\<close> marks a removed key.\<close>

record patch_op =
  op_path :: string
  op_value :: jsval

text \<open>\<open>const addOp = (path, value) => ops.push({ op: 'set', path, value })\<close>\<close>

definition addOp :: "string \<Rightarrow> jsval \<Rightarrow> patch_op" where
  "addOp path v = \<lparr>op_path = path, op_value = v\<rparr>"

text \<open>\<open>p.length !== n.length || p.some((v, i) => JSON.stringify(v) !== JSON.stringify(n[i]))\<close>,
  called with two arrays.\<close>

fun arrayChanged :: "jsval \<Rightarrow> jsval \<Rightarrow> bool" where
  "arrayChanged (Some (JArr p)) (Some (JArr n)) =
     (length p \<noteq> length n \<or> list_ex (\<lambda>(v, w). stringifyDiffers (Some v) (Some w)) (zip p n))"
| "arrayChanged a b = False"

text \<open>\<open>Object.keys(isPlainObject(v) ? v : {})\<close>\<close>

definition plainKeys :: "jsval \<Rightarrow> string list" where
  "plainKeys v = (case v of Some (JObj kvs) \<Rightarrow> objectKeys (JObj kvs) | _ \<Rightarrow> [])"

text \<open>\<open>isPlainObject(v) ? v[key] : undefined\<close>\<close>

definition plainProp :: "jsval \<Rightarrow> string \<Rightarrow> jsval" where
  "plainProp v key = (case v of Some (JObj kvs) \<Rightarrow> getProp (JObj kvs) key | _ \<Rightarrow> None)"

text \<open>\<open>basePath ? `${basePath}.${key}` : key\<close>\<close>

definition joinPath :: "string \<Rightarrow> string \<Rightarrow> string" where
  "joinPath basePath key = (if basePath \<noteq> [] then basePath @ ''.'' @ key else key)"

text \<open>\<open>const allKeys = new Set([...Object.keys(isPlainObject(prev) ? prev : {}),
  ...Object.keys(isPlainObject(next) ? next : {})])\<close>\<close>

definition allKeys :: "jsval \<Rightarrow> jsval \<Rightarrow> string list" where
  "allKeys prev next = newSet (plainKeys prev @ plainKeys next)"

text \<open>\<open>deepDiffOps(prev, next, basePath = '')\<close>: the loop over \<open>allKeys\<close> appends the
  operations of each key in turn.\<close>

function deepDiffOps :: "jsval \<Rightarrow> jsval \<Rightarrow> string \<Rightarrow> patch_op list" where
  "deepDiffOps prev next basePath =
     concat (map (\<lambda>key.
       let p = plainProp prev key;
           n = plainProp next key;
           path = joinPath basePath key
       in if n = None then [addOp path None]
          else if isPlainObject p \<and> isPlainObject n then deepDiffOps p n path
          else if isArray p \<and> isArray n then
            (if arrayChanged p n then [addOp path n] else [])
          else (if stringifyDiffers p n then [addOp path n] else []))
       (allKeys prev next))"
  by pat_completeness auto

lemma map_of_size: "map_of kvs k = Some v \<Longrightarrow> size v < size (JObj kvs)"
  by (induction kvs) (auto split: if_splits)

termination deepDiffOps
proof (relation "measure (\<lambda>(prev, next, basePath). jsize next)", goal_cases)
  case 1
  show ?case by simp
next
  case (2 prev "next" basePath key p n path)
  then show ?case
    by (auto simp: isPlainObject_def plainProp_def split: option.splits json.splits
        dest: map_of_size)
qed

declare deepDiffOps.simps [simp del]


section \<open>index.js: the store and the socket handlers\<close>

text \<open>\<open>state[k] = { matchData, overlays, wagonData, updatedAt }\<close>. The store is
  \<open>Object.create(null)\<close>, a map from tenant keys to documents. \<open>updatedAt\<close> is \<open>undefined\<close>
  in the default a publish handler uses for a tenant with no document.\<close>

record document =
  matchData :: json
  overlays :: json
  wagonData :: json
  updatedAt :: jsval

type_synonym store = "string \<Rightarrow> document option"

text \<open>A pending entry \<open>{ type: updateType, data }\<close> of the batching server.\<close>

record update_entry =
  entry_type :: string
  entry_data :: json

text \<open>What a handler sends: \<open>io.to(k).emit(name, payload)\<close> to a tenant's room, or
  \<open>socket.emit(name, payload)\<close> to the calling socket. The events are \<open>match-update\<close>,
  \<open>init-state\<close>, \<open>state-patch\<close>, \<open>score-update\<close>, \<open>wagon-append\<close>
  (\<open>{ items, startIndex }\<close>), \<open>wagon-update\<close> (\<open>{ wagonData }\<close>) and \<open>bulk-update\<close>.\<close>

datatype event =
    MatchUpdate document
  | InitState document
  | StatePatch "patch_op list"
  | ScoreUpdate "(string \<times> jsval) list"
  | WagonAppend "json list" nat
  | WagonUpdate "json list"
  | BulkUpdate "update_entry list"

datatype emission = ToRoom string event | ToSocket event

text \<open>\<open>state[k] || { matchData: null, overlays: {}, wagonData: [], updatedAt: null }\<close> of the
  two GET routes and of \<open>join\<close>.\<close>

definition readDefault :: document where
  "readDefault = \<lparr>matchData = JNull, overlays = JObj [], wagonData = JArr [], updatedAt = Some JNull\<rparr>"

text \<open>\<open>state[k] || { matchData: {}, overlays: {}, wagonData: [] }\<close> of the two publish
  handlers.\<close>

definition publishDefault :: document where
  "publishDefault = \<lparr>matchData = JObj [], overlays = JObj [], wagonData = JArr [], updatedAt = None\<rparr>"

definition prevOf :: "store \<Rightarrow> string \<Rightarrow> document" where
  "prevOf state k = (case state k of Some d \<Rightarrow> d | None \<Rightarrow> publishDefault)"

text \<open>\<open>app.get('/api/state/:userId', ...)\<close>: the response is \<open>{ success: true, ...s }\<close>; the
  route writes nothing, so the store it leaves is the store it found.\<close>

definition getState :: "store \<Rightarrow> string \<Rightarrow> store \<times> document" where
  "getState state userId =
     (let k = keyFor (Some (JStr userId));
          s = (case state k of Some d \<Rightarrow> d | None \<Rightarrow> readDefault)
      in (state, s))"

text \<open>\<open>payload && payload.userId\<close>\<close>

definition andProp :: "jsval \<Rightarrow> string \<Rightarrow> jsval" where
  "andProp v key = (case v of None \<Rightarrow> None | Some x \<Rightarrow> if truthy (Some x) then getProp x key else Some x)"

text \<open>\<open>socket.on('join', (payload) => ...)\<close>: the socket joins room \<open>k\<close> and is sent the
  current document. Returns the store, the room and what is sent.\<close>

definition onJoin :: "store \<Rightarrow> jsval \<Rightarrow> store \<times> string \<times> emission list" where
  "onJoin state payload =
     (let k = keyFor (andProp payload ''userId'');
          s = (case state k of Some d \<Rightarrow> d | None \<Rightarrow> readDefault)
      in (state, k, [ToSocket (MatchUpdate s)]))"

text \<open>\<open>(payload = {}) => { const { userId, ... } = payload; ... }\<close>: the default stands in
  for a missing argument only; destructuring \<open>null\<close> throws a TypeError.\<close>

definition destructure :: "jsval \<Rightarrow> js_error + json" where
  "destructure payload =
     (case payload of None \<Rightarrow> Inr (JObj []) | Some JNull \<Rightarrow> Inl TypeError | Some v \<Rightarrow> Inr v)"

text \<open>\<open>v || {}\<close>\<close>

definition orEmpty :: "jsval \<Rightarrow> json" where
  "orEmpty v = (case v of None \<Rightarrow> JObj [] | Some x \<Rightarrow> if truthy (Some x) then x else JObj [])"

text \<open>\<open>(prev.matchData && prev.matchData.score) || {}\<close>\<close>

definition prevScoreOf :: "json \<Rightarrow> json" where
  "prevScoreOf md = orEmpty (andProp (Some md) ''score'')"

text \<open>The loop that builds \<open>scorePatch\<close>:
  \<open>if (nextScore[key] !== prevScore[key]) scorePatch[key] = nextScore[key]\<close> over
  \<open>new Set([...Object.keys(prevScore), ...Object.keys(nextScore)])\<close>.\<close>

definition scorePatchOf :: "json \<Rightarrow> json \<Rightarrow> (string \<times> jsval) list" where
  "scorePatchOf prevScore nextScore =
     map (\<lambda>key. (key, getProp nextScore key))
       (filter (\<lambda>key. strictNotEqual (getProp nextScore key) (getProp prevScore key))
          (newSet (objectKeys prevScore @ objectKeys nextScore)))"

text \<open>\<open>op.path === 'matchData.score' || op.path.startsWith('matchData.score.')\<close>\<close>

definition underScore :: "patch_op \<Rightarrow> bool" where
  "underScore op = (op_path op = ''matchData.score'' \<or> startsWith (op_path op) ''matchData.score.'')"

text \<open>\<open>socket.on('publish-update', (payload = {}) => ...)\<close>; \<open>now\<close> is
  \<open>new Date().toISOString()\<close>.\<close>

definition onPublishUpdate :: "string \<Rightarrow> store \<Rightarrow> jsval \<Rightarrow> js_error + (store \<times> emission list)" where
  "onPublishUpdate now state payload =
     (case destructure payload of
        Inl e \<Rightarrow> Inl e
      | Inr pl \<Rightarrow>
          let userId = getProp pl ''userId'';
              md = getProp pl ''matchData'';
              ov = getProp pl ''overlays'';
              k = keyFor userId;
              prev = prevOf state k;
              nextDoc = \<lparr>matchData = (case md of Some m \<Rightarrow> m | None \<Rightarrow> orEmpty (Some (matchData prev))),
                         overlays = (case ov of Some v \<Rightarrow> spread2 (overlays prev) v
                                     | None \<Rightarrow> orEmpty (Some (overlays prev))),
                         wagonData = wagonData prev,
                         updatedAt = Some (JStr now)\<rparr>;
              ops1 = (if isPlainObject md
                      then deepDiffOps (Some (orEmpty (Some (matchData prev)))) md ''matchData'' else []);
              ops2 = (if isPlainObject ov
                      then deepDiffOps (Some (orEmpty (Some (overlays prev)))) ov ''overlays'' else []);
              ops = ops1 @ ops2;
              state' = state(k \<mapsto> nextDoc);
              scorePatch = (if isPlainObject md \<and> isPlainObject (plainProp md ''score'')
                            then scorePatchOf (prevScoreOf (matchData prev)) (orEmpty (plainProp md ''score''))
                            else []);
              sentScore = (scorePatch \<noteq> []);
              ops' = (if sentScore then filter (\<lambda>op. \<not> underScore op) ops else ops)
          in Inr (state',
                  (if sentScore then [ToRoom k (ScoreUpdate scorePatch)] else [])
                  @ (if ops' \<noteq> [] then [ToRoom k (StatePatch ops')] else [])))"

text \<open>\<open>socket.on('publish-wagon', (payload = {}) => ...)\<close>. The loop that clears
  \<open>isAppendOnly\<close> at the first index where the two arrays differ is \<open>list_ex\<close> over the
  indices of \<open>oldArr\<close>, which are indices of \<open>newArr\<close> when the loop runs.\<close>

definition arrayOr :: "json \<Rightarrow> json list" where
  "arrayOr v = (case v of JArr xs \<Rightarrow> xs | _ \<Rightarrow> [])"

definition isAppendOnly :: "json list \<Rightarrow> json list \<Rightarrow> bool" where
  "isAppendOnly oldArr newArr =
     (if length newArr \<ge> length oldArr
      then \<not> list_ex (\<lambda>i. stringifyDiffers (Some (oldArr ! i)) (Some (newArr ! i))) [0..<length oldArr]
      else False)"

definition onPublishWagon :: "string \<Rightarrow> store \<Rightarrow> jsval \<Rightarrow> js_error + (store \<times> emission list)" where
  "onPublishWagon now state payload =
     (case destructure payload of
        Inl e \<Rightarrow> Inl e
      | Inr pl \<Rightarrow>
          let userId = getProp pl ''userId'';
              wd = getProp pl ''wagonData'';
              k = keyFor userId;
              prev = prevOf state k;
              nextWagon = (case wd of Some (JArr xs) \<Rightarrow> JArr xs | _ \<Rightarrow> wagonData prev);
              state' = state(k \<mapsto> \<lparr>matchData = matchData prev, overlays = overlays prev,
                                     wagonData = nextWagon, updatedAt = Some (JStr now)\<rparr>);
              oldArr = arrayOr (wagonData prev);
              newArr = arrayOr nextWagon
          in Inr (state',
                  if isAppendOnly oldArr newArr \<and> length newArr > length oldArr
                  then [ToRoom k (WagonAppend (drop (length oldArr) newArr) (length oldArr))]
                  else [ToRoom k (WagonUpdate newArr)]))"

section \<open>The batching server: diffObjects, scheduleUpdate and the flush timer\<close>

text \<open>\<open>function diffObjects(oldObj, newObj)\<close>: \<open>changes\<close> is built key by key over
  \<open>for (const key in newObj)\<close>. A key the loop yields has a value, so the first branch
  of the \<open>case\<close> is never taken.\<close>

function diffObjects :: "json \<Rightarrow> json \<Rightarrow> (string \<times> json) list" where
  "diffObjects oldObj newObj =
     concat (map (\<lambda>key.
       case getProp newObj key of
         None \<Rightarrow> []
       | Some nv \<Rightarrow>
           if isObjectNotNull (Some nv) then
             (let nestedDiff = diffObjects (orEmpty (getProp oldObj key)) nv
              in if length nestedDiff > 0 then [(key, JObj nestedDiff)] else [])
           else if strictNotEqual (Some nv) (getProp oldObj key) then [(key, nv)]
           else [])
       (objectKeys newObj))"
  by pat_completeness auto

lemma getProp_size:
  "getProp v key = Some nv \<Longrightarrow> isObjectNotNull (Some nv) \<Longrightarrow> size nv < size v"
proof (cases v)
  case (JArr xs)
  assume g: "getProp v key = Some nv" and o: "isObjectNotNull (Some nv)"
  from g o JArr have "map_of (zip (indexKeys (length xs)) xs) key = Some nv"
    by (auto simp: isObjectNotNull_def split: if_splits)
  then have "nv \<in> set xs"
    by (meson in_set_zipE map_of_SomeD)
  then have "size nv \<le> size_list size xs"
    by (simp add: size_list_estimation')
  with JArr show ?thesis by simp
next
  case (JStr s)
  assume g: "getProp v key = Some nv" and o: "isObjectNotNull (Some nv)"
  have "map_of (zip (indexKeys (length s)) (map (\<lambda>c. JStr [c]) s)) key = Some nv
        \<Longrightarrow> nv \<in> set (map (\<lambda>c. JStr [c]) s)"
    by (meson in_set_zipE map_of_SomeD)
  with g o JStr show ?thesis
    by (auto simp: isObjectNotNull_def split: if_splits)
qed (auto simp: isObjectNotNull_def dest: map_of_size)

termination diffObjects
proof (relation "measure (\<lambda>(oldObj, newObj). size newObj)", goal_cases)
  case 1
  show ?case by simp
next
  case (2 oldObj newObj key nv)
  then show ?case by (simp add: getProp_size)
qed

declare diffObjects.simps [simp del]

text \<open>\<open>let pendingUpdates = {}\<close>: per tenant key, the entries not yet sent, keys in the
  order they were first used.\<close>

type_synonym pending = "(string \<times> update_entry list) list"

text \<open>\<open>function scheduleUpdate(userId, updateType, data)\<close>\<close>

definition scheduleUpdate :: "pending \<Rightarrow> string \<Rightarrow> string \<Rightarrow> json \<Rightarrow> pending" where
  "scheduleUpdate pendingUpdates userId updateType data =
     (let p1 = (if map_of pendingUpdates userId = None
                then AList.update userId [] pendingUpdates else pendingUpdates)
      in case map_of p1 userId of
           None \<Rightarrow> p1
         | Some updates \<Rightarrow>
             AList.update userId (updates @ [\<lparr>entry_type = updateType, entry_data = data\<rparr>]) p1)"



text \<open>\<open>{ matchData: {}, overlays: {}, wagonData: {}, updatedAt: Date.now() }\<close>, stored by
  each socket handler for a tenant that has no document. \<open>now\<close> is \<open>Date.now()\<close>.\<close>

definition freshDocument :: "int \<Rightarrow> document" where
  "freshDocument now = \<lparr>matchData = JObj [], overlays = JObj [], wagonData = JObj [],
                         updatedAt = Some (JNum now)\<rparr>"

definition ensureDocument :: "int \<Rightarrow> store \<Rightarrow> string \<Rightarrow> store" where
  "ensureDocument now state key =
     (case state key of None \<Rightarrow> state(key \<mapsto> freshDocument now) | Some d \<Rightarrow> state)"

definition docOf :: "int \<Rightarrow> store \<Rightarrow> string \<Rightarrow> document" where
  "docOf now state key = (case state key of None \<Rightarrow> freshDocument now | Some d \<Rightarrow> d)"

text \<open>\<open>socket.on("join", (userId) => ...)\<close>\<close>

definition onJoinB :: "int \<Rightarrow> store \<Rightarrow> jsval \<Rightarrow> store \<times> string \<times> emission list" where
  "onJoinB now state userId =
     (let key = keyFor userId;
          state1 = ensureDocument now state key
      in (state1, key, [ToSocket (InitState (docOf now state1 key))]))"

text \<open>\<open>({ userId, matchData, overlays }) => ...\<close>: the parameter has no default, so
  destructuring throws a TypeError for a missing argument as for \<open>null\<close>.\<close>

definition destructureB :: "jsval \<Rightarrow> js_error + json" where
  "destructureB payload =
     (case payload of None \<Rightarrow> Inl TypeError | Some JNull \<Rightarrow> Inl TypeError | Some v \<Rightarrow> Inr v)"

text \<open>The block the handler runs for \<open>matchData\<close> and again for \<open>overlays\<close>:
  \<open>if (x) { const diff = diffObjects(state[key].x, x);
     if (Object.keys(diff).length > 0) { state[key].x = { ...state[key].x, ...x }; changes.x = diff; } }\<close>.
  Returns the field as stored and the entry added to \<open>changes\<close>.\<close>

definition mergeField :: "string \<Rightarrow> json \<Rightarrow> jsval \<Rightarrow> json \<times> (string \<times> json) list" where
  "mergeField name old x =
     (case x of
        None \<Rightarrow> (old, [])
      | Some v \<Rightarrow>
          if truthy (Some v) then
            (let diff = diffObjects old v
             in if length diff > 0 then (spread2 old v, [(name, JObj diff)]) else (old, []))
          else (old, []))"

text \<open>\<open>socket.on("publish-update", ...)\<close>\<close>

definition onPublishUpdateB ::
  "int \<Rightarrow> store \<Rightarrow> pending \<Rightarrow> jsval \<Rightarrow> js_error + (store \<times> pending)" where
  "onPublishUpdateB now state pendingUpdates payload =
     (case destructureB payload of
        Inl e \<Rightarrow> Inl e
      | Inr pl \<Rightarrow>
          let key = keyFor (getProp pl ''userId'');
              d = docOf now state key;
              m = mergeField ''matchData'' (matchData d) (getProp pl ''matchData'');
              v = mergeField ''overlays'' (overlays d) (getProp pl ''overlays'');
              changes = snd m @ snd v;
              d' = d\<lparr>matchData := fst m, overlays := fst v, updatedAt := Some (JNum now)\<rparr>
          in Inr (state(key \<mapsto> d'),
                  if length changes > 0
                  then scheduleUpdate pendingUpdates key ''update'' (JObj changes)
                  else pendingUpdates))"

text \<open>\<open>socket.on("publish-wagon", ...)\<close>\<close>

definition onPublishWagonB ::
  "int \<Rightarrow> store \<Rightarrow> pending \<Rightarrow> jsval \<Rightarrow> js_error + (store \<times> pending)" where
  "onPublishWagonB now state pendingUpdates payload =
     (case destructureB payload of
        Inl e \<Rightarrow> Inl e
      | Inr pl \<Rightarrow>
          let key = keyFor (getProp pl ''userId'');
              wd = getProp pl ''wagonData'';
              d = docOf now state key
          in (case wd of
                None \<Rightarrow> Inr (state(key \<mapsto> d), pendingUpdates)
              | Some w \<Rightarrow>
                  if truthy wd \<and> stringifyDiffers wd (Some (wagonData d))
                  then Inr (state(key \<mapsto> d\<lparr>wagonData := w, updatedAt := Some (JNum now)\<rparr>),
                            scheduleUpdate pendingUpdates key ''wagon'' (JObj [(''wagonData'', w)]))
                  else Inr (state(key \<mapsto> d), pendingUpdates)))"

text \<open>What a publish handler sent and the store it left, read off its result (nothing and
  the empty store when it threw).\<close>

definition emitted :: "js_error + (store \<times> emission list) \<Rightarrow> emission list" where
  "emitted r = (case r of Inl e \<Rightarrow> [] | Inr so \<Rightarrow> snd so)"


definition pendingOf :: "js_error + (store \<times> pending) \<Rightarrow> pending" where
  "pendingOf r = (case r of Inl e \<Rightarrow> [] | Inr so \<Rightarrow> snd so)"






section \<open>Applying a patch\<close>

text \<open>
  Modelled from the spec: applying a patch to a document. The server has no code for it
  (its clients apply the operations it sends); the specification says that a patch
  operation is a pair of a path, "a dot-delimited address into the document", and "the
  new value at that address, or a tombstone meaning field removed", and that a patch is
  applied as a whole. So \<open>applyOp\<close> splits the path at the dots (\<open>path.split('.')\<close>),
  walks down the mappings along the keys, and at the last key stores the value, or
  deletes the key for a tombstone; a mapping missing on the way is created.
\<close>

fun splitDots :: "string \<Rightarrow> string list" where
  "splitDots [] = [[]]"
| "splitDots (c # cs) =
     (if c = CHR ''.'' then [] # splitDots cs
      else (case splitDots cs of [] \<Rightarrow> [[c]] | w # ws \<Rightarrow> (c # w) # ws))"

definition fields :: "json \<Rightarrow> (string \<times> json) list" where
  "fields doc = (case doc of JObj kvs \<Rightarrow> kvs | _ \<Rightarrow> [])"

fun setAt :: "string list \<Rightarrow> jsval \<Rightarrow> json \<Rightarrow> json" where
  "setAt [] v doc = doc"
| "setAt [k] v doc =
     (case v of None \<Rightarrow> JObj (AList.delete k (fields doc))
      | Some x \<Rightarrow> JObj (AList.update k x (fields doc)))"
| "setAt (k # ks) v doc =
     JObj (AList.update k
             (setAt ks v (case map_of (fields doc) k of None \<Rightarrow> JObj [] | Some child \<Rightarrow> child))
             (fields doc))"

definition applyOp :: "patch_op \<Rightarrow> json \<Rightarrow> json" where
  "applyOp op doc = setAt (splitDots (op_path op)) (op_value op) doc"

definition applyPatch :: "patch_op list \<Rightarrow> json \<Rightarrow> json" where
  "applyPatch ops doc = fold applyOp ops doc"





section \<open>The sequence delta of publish-wagon (index.js)\<close>

lemma isAppendOnly_append: "isAppendOnly old (old @ tail)"
  by (auto simp: isAppendOnly_def list_ex_iff stringifyDiffers_def nth_append)

lemma isAppendOnly_differs:
  "i < length old \<Longrightarrow> old ! i \<noteq> new ! i \<Longrightarrow> \<not> isAppendOnly old new"
  by (auto simp: isAppendOnly_def list_ex_iff stringifyDiffers_def)

lemma isAppendOnly_shorter: "length new < length old \<Longrightarrow> \<not> isAppendOnly old new"
  by (auto simp: isAppendOnly_def)

text \<open>
  C2, as the code has it. The stored sequence is \<open>old\<close>, the published one \<open>new\<close>.
  When \<open>new\<close> is \<open>old\<close> with a non-empty \<open>tail\<close> appended, the handler sends
  \<open>wagon-append\<close> with \<open>items = tail\<close> and \<open>startIndex = length old\<close>. When nothing is
  appended (\<open>new = old\<close>), when \<open>new\<close> is shorter, or when \<open>new\<close> differs from \<open>old\<close> at an
  index of \<open>old\<close>, it sends \<open>wagon-update\<close> with the whole of \<open>new\<close>.
\<close>

theorem wagon_delta:
  assumes "destructure payload = Inr pl"
    and "getProp pl ''wagonData'' = Some (JArr new)"
    and "k = keyFor (getProp pl ''userId'')"
    and "wagonData (prevOf state k) = JArr old"
  shows "(\<forall>tail. new = old @ tail \<and> tail \<noteq> [] \<longrightarrow>
            emitted (onPublishWagon now state payload)
              = [ToRoom k (WagonAppend tail (length old))])
       \<and> (new = old \<or> length new < length old \<or> (\<exists>i < length old. old ! i \<noteq> new ! i) \<longrightarrow>
            emitted (onPublishWagon now state payload) = [ToRoom k (WagonUpdate new)])"
proof (intro conjI allI impI)
  fix tail assume "new = old @ tail \<and> tail \<noteq> []"
  with assms show "emitted (onPublishWagon now state payload)
                     = [ToRoom k (WagonAppend tail (length old))]"
    by (simp add: onPublishWagon_def emitted_def Let_def arrayOr_def isAppendOnly_append)
next
  assume "new = old \<or> length new < length old \<or> (\<exists>i < length old. old ! i \<noteq> new ! i)"
  then have "\<not> (isAppendOnly old new \<and> length new > length old)"
    using isAppendOnly_differs isAppendOnly_shorter by auto
  with assms show "emitted (onPublishWagon now state payload) = [ToRoom k (WagonUpdate new)]"
    by (simp add: onPublishWagon_def emitted_def Let_def arrayOr_def)
qed

text \<open>The theorem at the scenario of the specification: \<open>[a, b]\<close> is stored and
  \<open>[a, b, c]\<close> is published.\<close>

theorem wagon_delta_witness:
  "emitted (onPublishWagon ''t2''
      ((\<lambda>k. None)(''default'' \<mapsto> \<lparr>matchData = JObj [], overlays = JObj [],
          wagonData = JArr [JStr ''a'', JStr ''b''], updatedAt = Some (JStr ''t1'')\<rparr>))
      (Some (JObj [(''wagonData'', JArr [JStr ''a'', JStr ''b'', JStr ''c''])])))
   = [ToRoom ''default'' (WagonAppend [JStr ''c''] 2)]"
proof -
  let ?st = "(\<lambda>k. None)(''default'' \<mapsto> \<lparr>matchData = JObj [], overlays = JObj [],
          wagonData = JArr [JStr ''a'', JStr ''b''], updatedAt = Some (JStr ''t1'')\<rparr>)"
  let ?pl = "JObj [(''wagonData'', JArr [JStr ''a'', JStr ''b'', JStr ''c''])]"
  have "destructure (Some ?pl) = Inr ?pl"
    by (simp add: destructure_def)
  moreover have "getProp ?pl ''wagonData'' = Some (JArr [JStr ''a'', JStr ''b'', JStr ''c''])"
    by simp
  moreover have "''default'' = keyFor (getProp ?pl ''userId'')"
    by (simp add: keyFor_def)
  moreover have "wagonData (prevOf ?st ''default'') = JArr [JStr ''a'', JStr ''b'']"
    by (simp add: prevOf_def)
  ultimately show ?thesis
    using wagon_delta [of "Some ?pl" ?pl "[JStr ''a'', JStr ''b'', JStr ''c'']" "''default''" ?st
        "[JStr ''a'', JStr ''b'']" "''t2''"]
    by simp
qed

text \<open>C2 as stated fails for \<open>k = 0\<close>: with \<open>[a]\<close> stored and \<open>[a]\<close> published, the handler
  sends \<open>wagon-update\<close> with the whole sequence, not an append delta with an empty tail.\<close>

theorem wagon_delta_counterexample:
  "emitted (onPublishWagon ''t2''
      ((\<lambda>k. None)(''default'' \<mapsto> \<lparr>matchData = JObj [], overlays = JObj [],
          wagonData = JArr [JStr ''a''], updatedAt = Some (JStr ''t1'')\<rparr>))
      (Some (JObj [(''wagonData'', JArr [JStr ''a''])])))
   = [ToRoom ''default'' (WagonUpdate [JStr ''a''])]
   \<and> emitted (onPublishWagon ''t2''
      ((\<lambda>k. None)(''default'' \<mapsto> \<lparr>matchData = JObj [], overlays = JObj [],
          wagonData = JArr [JStr ''a''], updatedAt = Some (JStr ''t1'')\<rparr>))
      (Some (JObj [(''wagonData'', JArr [JStr ''a''])])))
   \<noteq> [ToRoom ''default'' (WagonAppend [] 1)]"
  by (simp add: onPublishWagon_def emitted_def destructure_def keyFor_def prevOf_def
      arrayOr_def isAppendOnly_def stringifyDiffers_def Let_def)

section \<open>Payloads that make a handler throw (index.js)\<close>

text \<open>
  C9 says that no publish or join input, an absent or \<open>null\<close> payload included, makes a
  handler throw. \<open>join\<close> reads \<open>payload && payload.userId\<close> and is safe; the publish
  handlers only default a missing argument, so destructuring a \<open>null\<close> payload throws.
  The publish handlers of the batching server destructure in the parameter list, with
  no default, and throw for a missing payload as well.
\<close>

theorem publish_update_null_payload_throws:
  "onPublishUpdate now state (Some JNull) = Inl TypeError
   \<and> onPublishWagon now state (Some JNull) = Inl TypeError
   \<and> onJoin (\<lambda>k. None) (Some JNull)
       = (\<lambda>k. None, ''default'', [ToSocket (MatchUpdate readDefault)])
   \<and> onPublishUpdateB t state pendingUpdates (Some JNull) = Inl TypeError
   \<and> onPublishUpdateB t state pendingUpdates None = Inl TypeError
   \<and> onPublishWagonB t state pendingUpdates (Some JNull) = Inl TypeError
   \<and> onPublishWagonB t state pendingUpdates None = Inl TypeError"
  by (simp add: onPublishUpdate_def onPublishWagon_def destructure_def onJoin_def andProp_def
      keyFor_def Let_def onPublishUpdateB_def onPublishWagonB_def destructureB_def)

section \<open>Fields a publish leaves alone\<close>



section \<open>Keys of arrays, and the spread of two values\<close>















section \<open>Overlays are merged shallowly (index.js)\<close>



section \<open>Reading a tenant that has no document\<close>

text \<open>
  C8, as the code has it. No read fails. In index.js the GET route and \<open>join\<close> answer a
  tenant without a document with \<open>{ matchData: null, overlays: {}, wagonData: [],
  updatedAt: null }\<close> and store nothing. In the batching server \<open>join\<close> stores
  \<open>{ matchData: {}, overlays: {}, wagonData: {}, updatedAt: now }\<close> for the tenant and
  sends it, and a later \<open>join\<close> sends that stored document again.
\<close>

theorem tenant_without_document:
  assumes "state (keyFor (Some (JStr userId))) = None"
  shows "getState state userId
           = (state, \<lparr>matchData = JNull, overlays = JObj [], wagonData = JArr [],
                       updatedAt = Some JNull\<rparr>)
       \<and> onJoin state (Some (JObj [(''userId'', JStr userId)]))
           = (state, keyFor (Some (JStr userId)),
              [ToSocket (MatchUpdate \<lparr>matchData = JNull, overlays = JObj [], wagonData = JArr [],
                       updatedAt = Some JNull\<rparr>)])
       \<and> onJoinB now state (Some (JStr userId))
           = (state(keyFor (Some (JStr userId)) \<mapsto>
                \<lparr>matchData = JObj [], overlays = JObj [], wagonData = JObj [],
                 updatedAt = Some (JNum now)\<rparr>),
              keyFor (Some (JStr userId)),
              [ToSocket (InitState \<lparr>matchData = JObj [], overlays = JObj [], wagonData = JObj [],
                 updatedAt = Some (JNum now)\<rparr>)])
       \<and> snd (snd (onJoinB now' (fst (onJoinB now state (Some (JStr userId)))) (Some (JStr userId))))
           = [ToSocket (InitState \<lparr>matchData = JObj [], overlays = JObj [], wagonData = JObj [],
                 updatedAt = Some (JNum now)\<rparr>)]"
  using assms
  by (simp add: getState_def onJoin_def onJoinB_def readDefault_def andProp_def Let_def
      ensureDocument_def docOf_def freshDocument_def)

theorem tenant_without_document_witness:
  "getState (\<lambda>k. None) ''teamA''
     = (\<lambda>k. None, \<lparr>matchData = JNull, overlays = JObj [], wagonData = JArr [],
                       updatedAt = Some JNull\<rparr>)
   \<and> snd (snd (onJoinB 7 (fst (onJoinB 5 (\<lambda>k. None) (Some (JStr ''teamA'')))) (Some (JStr ''teamA''))))
     = [ToSocket (InitState \<lparr>matchData = JObj [], overlays = JObj [], wagonData = JObj [],
                 updatedAt = Some (JNum 5)\<rparr>)]"
proof -
  have "(\<lambda>k. None :: document option) (keyFor (Some (JStr ''teamA''))) = None"
    by simp
  then show ?thesis
    using tenant_without_document [of "\<lambda>k. None" "''teamA''" 5 7] by blast
qed

text \<open>C8 as stated fails: the GET route of index.js answers a tenant it has never seen
  with \<open>matchData = null\<close>, not \<open>{}\<close>, and the tenant has no document in the store
  afterwards.\<close>

theorem tenant_without_document_counterexample:
  "matchData (snd (getState (\<lambda>k. None) ''teamA'')) = JNull
   \<and> matchData (snd (getState (\<lambda>k. None) ''teamA'')) \<noteq> JObj []
   \<and> fst (getState (\<lambda>k. None) ''teamA'') ''teamA'' = None"
  by (simp add: getState_def readDefault_def Let_def)

section \<open>One bulk message per tenant and tick (the batching server)\<close>















section \<open>The structural differ: removed keys and null (index.js)\<close>


lemma set_newSet [simp]: "set (newSet xs) = set xs"
  by (induction xs rule: newSet.induct) auto

lemma distinct_newSet [simp]: "distinct (newSet xs)"
  by (induction xs rule: newSet.induct) auto




section \<open>The structural differ: applying its patch (index.js)\<close>








lemma plainProp_obj [simp]: "plainProp (Some (JObj kvs)) key = map_of kvs key"
  by (simp add: plainProp_def)

lemma plainKeys_obj [simp]: "plainKeys (Some (JObj kvs)) = map fst kvs"
  by (simp add: plainKeys_def objectKeys_def)





lemma applyPatch_Nil [simp]: "applyPatch [] doc = doc"
  by (simp add: applyPatch_def)

lemma applyPatch_Cons [simp]: "applyPatch (op # ops) doc = applyPatch ops (applyOp op doc)"
  by (simp add: applyPatch_def)

lemma applyPatch_append [simp]: "applyPatch (xs @ ys) doc = applyPatch ys (applyPatch xs doc)"
  by (simp add: applyPatch_def)













section \<open>The score sub-path of publish-update (index.js)\<close>








section \<open>Publishing the same content twice\<close>


















end
